theory Spec2Isabelle
  imports Main "HOL-Library.AList"
begin

section \<open>The theme registry of ui-themeable (registry.js)\<close>

subsection \<open>JavaScript values\<close>

text \<open>
  Theme variables, overrides and component styles are plain objects whose property names
  are strings. An object is an association list in insertion order; a property is read
  with \<open>map_of\<close> and written with \<open>AList.update\<close> (which overwrites in place or appends,
  as an assignment \<open>o[k] = v\<close> does). The properties of the object are the bindings that
  \<open>map_of\<close> sees; enumerating them (\<open>AList.clearjunk\<close>) visits each property once,
  in insertion order. An absent object argument (\<open>undefined\<close> or
  \<open>null\<close>; the code only tests such arguments for truthiness or hands them to
  \<open>mergeDeep\<close>) is \<open>None\<close>.
\<close>

datatype jsval = JNull | JBool bool | JNum int | JStr string | JObj "(string \<times> jsval) list"

type_synonym jsobj = "(string \<times> jsval) list"

text \<open>
  The keys of a components bucket are property keys in general: a string or a symbol.
  \<open>generateTheme\<close> enumerates only the symbols.
\<close>

datatype pkey = Str string | Sym nat

datatype js_error = TypeError string | Thrown string

text \<open>
  A component style function takes the resolved variables and returns a style object, or
  throws. It is a function object: it may carry own enumerable properties, each named by a
  string (read as a theme key), whose value is a function or something else.
\<close>

type_synonym style_function = "jsobj option \<Rightarrow> js_error + jsobj"

datatype property = Callable style_function | NotCallable

record function_object =
  call :: style_function
  props :: "(string \<times> property) list"

record theme =
  key :: "string option"
  variables :: "jsobj option"
  immutable :: bool

type_synonym bucket = "(pkey \<times> style_function) list"

record registry =
  defaultThemeKey :: "string option"
  components :: "(string \<times> bucket) list"
  themes :: "(string \<times> theme) list"
  registered :: "string list"
  overrides :: "jsobj option"

text \<open>
  The module keeps the registry in the variable \<open>GLOBAL_THEME_REGISTRY\<close> and, when
  \<open>canUseDOM\<close> holds, shares it through \<open>window.GLOBAL_THEME_REGISTRY\<close>. The window
  slot is a reference: it is unset, or it is the very object the module variable holds, or
  it is another object (put there by another copy of the module).
\<close>

datatype window_slot = Unset | SameObject | OtherObject registry

datatype diagnostic =
    InvalidRegistry
  | CouldNotFindTheme string
  | ThemeIsImmutable string jsobj
  | NoThemesRegistered
  | ThemeIsImmutableFor string pkey jsobj
  | ConsoleError js_error

record world =
  canUseDOM :: bool
  GLOBAL_THEME_REGISTRY :: registry
  window_GLOBAL_THEME_REGISTRY :: window_slot
  uid_counter :: nat
  production :: bool
  console :: "diagnostic list"

subsection \<open>Helpers imported by registry.js\<close>

text \<open>
  Modelled from the spec: \<open>warning\<close> (imported from ui-utils; its source is not in
  this package) is the non-fatal diagnostic channel: it logs the message when the condition
  is false and never throws.
\<close>

definition warning :: "bool \<Rightarrow> diagnostic \<Rightarrow> world \<Rightarrow> world" where
  "warning condition d w = (if condition then w else w\<lparr>console := console w @ [d]\<rparr>)"

text \<open>
  Modelled from the spec: \<open>uid\<close> (imported from ui-utils, source missing) generates
  a fresh unique identifier. The supply is a counter; the n-th identifier is the letter u
  followed by n zeros, so two identifiers are equal only when their numbers are.
\<close>

definition uid_name :: "nat \<Rightarrow> string" where
  "uid_name n = CHR ''u'' # replicate n CHR ''0''"

text \<open>
  Modelled from the spec: a call of \<open>uid\<close> returns the next identifier of the supply.
\<close>

definition uid :: "world \<Rightarrow> string \<times> world" where
  "uid w = (uid_name (uid_counter w), w\<lparr>uid_counter := Suc (uid_counter w)\<rparr>)"

lemma size_list_delete_le: "size_list f (AList.delete k xs) \<le> size_list f xs"
  by (induction xs) (auto simp add: AList.delete_eq)

lemma size_list_delete_bound:
  "size_list f (AList.delete k xs) < Suc (Suc (n + size_list f xs))"
  using size_list_delete_le [of f k xs] by linarith

text \<open>
  Modelled from the spec: the merge of \<open>mergeDeep\<close> (imported from ui-utils, source
  missing) of one source object into a target: override values take precedence at every
  nesting level, plain-object values merge recursively, non-object values replace. Each
  property of the source is visited once.
\<close>

function mergeInto :: "jsobj \<Rightarrow> jsobj \<Rightarrow> jsobj" where
  "mergeInto target [] = target"
| "mergeInto target ((k, v) # rest) =
     mergeInto
       (AList.update k
          (case v of
             JObj s \<Rightarrow> (case map_of target k of
                          Some (JObj t) \<Rightarrow> JObj (mergeInto t s)
                        | _ \<Rightarrow> v)
           | _ \<Rightarrow> v)
          target)
       (AList.delete k rest)"
  by pat_completeness auto
termination
  by (relation "measure (\<lambda>(t, s). size (JObj s))")
     (simp_all add: size_list_delete_bound)

text \<open>
  Modelled from the spec: \<open>mergeDeep\<close> deep-merges the overrides onto the target. An
  absent argument contributes nothing, and the result is always an object.
\<close>

definition mergeDeep :: "jsobj option \<Rightarrow> jsobj option \<Rightarrow> jsobj" where
  "mergeDeep target source =
     mergeInto (mergeInto [] (case target of None \<Rightarrow> [] | Some t \<Rightarrow> t))
               (case source of None \<Rightarrow> [] | Some s \<Rightarrow> s)"

subsection \<open>Object operations of the language\<close>

text \<open>
  Copying the own properties of the source onto the target, one assignment per property,
  as a spread element does.
\<close>

definition assign :: "('k \<times> 'v) list \<Rightarrow> ('k \<times> 'v) list \<Rightarrow> ('k \<times> 'v) list" where
  "assign target source = fold (\<lambda>(k, v). AList.update k v) (AList.clearjunk source) target"

text \<open>The object literal \<open>{...a, ...b}\<close>; spreading \<open>undefined\<close> adds nothing.\<close>

definition spread :: "('k \<times> 'v) list option \<Rightarrow> ('k \<times> 'v) list option \<Rightarrow> ('k \<times> 'v) list" where
  "spread a b =
     assign (assign [] (case a of None \<Rightarrow> [] | Some x \<Rightarrow> x))
            (case b of None \<Rightarrow> [] | Some y \<Rightarrow> y)"

fun is_symbol :: "pkey \<Rightarrow> bool" where
  "is_symbol (Sym n) = True"
| "is_symbol (Str s) = False"

definition getOwnPropertySymbols :: "(pkey \<times> 'v) list \<Rightarrow> pkey list" where
  "getOwnPropertySymbols obj = filter is_symbol (map fst (AList.clearjunk obj))"

text \<open>
  \<open>overrides && Object.keys(overrides).length > 0\<close>: the argument is present and has
  at least one property.
\<close>

definition has_keys :: "jsobj option \<Rightarrow> bool" where
  "has_keys ovr = (case ovr of None \<Rightarrow> False | Some obj \<Rightarrow> length (map fst obj) > 0)"

subsection \<open>The registry store\<close>

definition DEFAULT_THEME_KEY :: string where
  "DEFAULT_THEME_KEY = ''@@themeableDefaultTheme''"

definition makeRegistry :: registry where
  "makeRegistry =
     \<lparr>defaultThemeKey = None,
      components = [(DEFAULT_THEME_KEY, [])],
      themes = [],
      registered = [],
      overrides = None\<rparr>"

text \<open>
  \<open>validateRegistry\<close> checks that the four fields of a fresh registry are defined. A
  \<open>registry\<close> record has them all, so \<open>valid\<close> stays true here and no diagnostic
  is logged; the registry is returned as it is.
\<close>

definition validateRegistry :: "registry \<Rightarrow> world \<Rightarrow> registry \<times> world" where
  "validateRegistry r w = (let valid = True in (r, warning valid InvalidRegistry w))"

definition getRegistry :: "world \<Rightarrow> registry \<times> world" where
  "getRegistry w =
     (if \<not> canUseDOM w then (GLOBAL_THEME_REGISTRY w, w)
      else (case window_GLOBAL_THEME_REGISTRY w of
              Unset \<Rightarrow>
                validateRegistry (GLOBAL_THEME_REGISTRY w)
                  (w\<lparr>window_GLOBAL_THEME_REGISTRY := SameObject\<rparr>)
            | SameObject \<Rightarrow> validateRegistry (GLOBAL_THEME_REGISTRY w) w
            | OtherObject r \<Rightarrow> validateRegistry r w))"

text \<open>
  A write through the reference that \<open>getRegistry\<close> returned changes the object that
  is live: the window's own object when the window holds another one, the module's
  otherwise.
\<close>

definition mutateRegistry :: "(registry \<Rightarrow> registry) \<Rightarrow> world \<Rightarrow> world" where
  "mutateRegistry f w =
     (if \<not> canUseDOM w then w\<lparr>GLOBAL_THEME_REGISTRY := f (GLOBAL_THEME_REGISTRY w)\<rparr>
      else (case window_GLOBAL_THEME_REGISTRY w of
              OtherObject r \<Rightarrow> w\<lparr>window_GLOBAL_THEME_REGISTRY := OtherObject (f r)\<rparr>
            | _ \<Rightarrow> w\<lparr>GLOBAL_THEME_REGISTRY := f (GLOBAL_THEME_REGISTRY w)\<rparr>))"

definition setRegistry :: "registry \<Rightarrow> world \<Rightarrow> world" where
  "setRegistry r w =
     (let w1 = w\<lparr>GLOBAL_THEME_REGISTRY := r\<rparr>
      in if canUseDOM w1 then w1\<lparr>window_GLOBAL_THEME_REGISTRY := SameObject\<rparr> else w1)"

definition clearRegistry :: "world \<Rightarrow> world" where
  "clearRegistry w = setRegistry makeRegistry w"

text \<open>The module as loaded: a fresh registry, nothing on the window, nothing logged.\<close>

definition loaded :: "bool \<Rightarrow> bool \<Rightarrow> world" where
  "loaded d p =
     \<lparr>canUseDOM = d,
      GLOBAL_THEME_REGISTRY = makeRegistry,
      window_GLOBAL_THEME_REGISTRY = Unset,
      uid_counter = 0,
      production = p,
      console = []\<rparr>"

text \<open>\<open>defaultThemeKey || registered[0] || DEFAULT_THEME_KEY\<close>\<close>

definition first_registered :: "string list \<Rightarrow> string option" where
  "first_registered ks = (case ks of [] \<Rightarrow> None | k # _ \<Rightarrow> Some k)"

definition getDefaultThemeKey :: "world \<Rightarrow> string \<times> world" where
  "getDefaultThemeKey w =
     (let (r, w1) = getRegistry w
      in ((case defaultThemeKey r of
             Some k \<Rightarrow>
               if k \<noteq> [] then k
               else (case first_registered (registered r) of
                       Some k0 \<Rightarrow> if k0 \<noteq> [] then k0 else DEFAULT_THEME_KEY
                     | None \<Rightarrow> DEFAULT_THEME_KEY)
           | None \<Rightarrow>
               (case first_registered (registered r) of
                  Some k0 \<Rightarrow> if k0 \<noteq> [] then k0 else DEFAULT_THEME_KEY
                | None \<Rightarrow> DEFAULT_THEME_KEY)), w1))"

definition empty_theme :: theme where
  "empty_theme = \<lparr>key = None, variables = None, immutable = False\<rparr>"

text \<open>
  \<open>{...theme, immutable}\<close>: the fields of the stored theme (none when the theme is
  missing) with \<open>immutable\<close> overlaid.
\<close>

definition setDefaultTheme :: "string \<Rightarrow> jsobj option \<Rightarrow> bool \<Rightarrow> world \<Rightarrow> theme \<times> world" where
  "setDefaultTheme themeKey ovr imm w =
     (let (r, w1) = getRegistry w;
          found = map_of (themes r) themeKey;
          w2 = warning (found \<noteq> None) (CouldNotFindTheme themeKey) w1;
          th = (case found of
                   None \<Rightarrow> empty_theme\<lparr>immutable := imm\<rparr>
                 | Some t \<Rightarrow> t\<lparr>immutable := imm\<rparr>)
      in (th,
          mutateRegistry
            (\<lambda>reg. reg\<lparr>themes := AList.update themeKey th (themes reg),
                       defaultThemeKey := Some themeKey,
                       overrides := ovr\<rparr>) w2))"

text \<open>
  \<open>const key = theme.key || uid()\<close>: \<open>uid\<close> is called only when the theme has no
  truthy key. The theme object itself is stored as it is.
\<close>

definition registerTheme :: "theme \<Rightarrow> world \<Rightarrow> world" where
  "registerTheme th w =
     (let (r, w1) = getRegistry w;
          (k, w2) = (case key th of
                       Some s \<Rightarrow> if s \<noteq> [] then (s, w1) else uid w1
                     | None \<Rightarrow> uid w1)
      in mutateRegistry
           (\<lambda>reg. reg\<lparr>themes := AList.update k th (themes reg),
                      registered := registered reg @ [k]\<rparr>) w2)"

subsection \<open>Theme and override resolution\<close>

definition getRegisteredTheme :: "string \<Rightarrow> theme option \<Rightarrow> world \<Rightarrow> theme option \<times> world" where
  "getRegisteredTheme themeKey defaultTheme w =
     (let (r, w1) = getRegistry w;
          found = map_of (themes r) themeKey;
          w2 = (case defaultTheme of
                  None \<Rightarrow> warning (found \<noteq> None) (CouldNotFindTheme themeKey) w1
                | Some d \<Rightarrow> w1)
      in ((case found of Some t \<Rightarrow> Some t | None \<Rightarrow> defaultTheme), w2))"

text \<open>
  Reading \<open>theme.immutable\<close> of \<open>undefined\<close> would throw a TypeError; the callers
  below always pass the empty object as the default, so that branch is never taken (see
  \<open>overrideThemeVariables_eq\<close>).
\<close>

definition overrideThemeVariables ::
  "string \<Rightarrow> jsobj option \<Rightarrow> world \<Rightarrow> (js_error + jsobj option) \<times> world" where
  "overrideThemeVariables themeKey ovr w =
     (case getRegisteredTheme themeKey (Some empty_theme) w of
        (None, w1) \<Rightarrow> (Inl (TypeError ''theme is undefined''), w1)
      | (Some th, w1) \<Rightarrow>
          if has_keys ovr \<and> immutable th
          then (Inr (variables th),
                warning False
                  (ThemeIsImmutable themeKey (case ovr of None \<Rightarrow> [] | Some obj \<Rightarrow> obj)) w1)
          else (Inr (Some (mergeDeep (variables th) ovr)), w1))"

text \<open>
  The parameter default \<open>overrides = {}\<close> replaces an absent argument by the empty
  object. The inner call of the two-stage merge is evaluated first.
\<close>

definition mergeWithDefaultThemeVariables ::
  "string option \<Rightarrow> jsobj option \<Rightarrow> world \<Rightarrow> (js_error + jsobj option) \<times> world" where
  "mergeWithDefaultThemeVariables themeKey ovr0 w =
     (let ovr = (case ovr0 of None \<Rightarrow> Some [] | Some obj \<Rightarrow> Some obj);
          (r, w1) = getRegistry w;
          defaultOverrides = (case overrides r of None \<Rightarrow> Some [] | Some obj \<Rightarrow> Some obj);
          (defaultKey, w2) = getDefaultThemeKey w1
      in case themeKey of
           Some tk \<Rightarrow>
             if tk \<noteq> [] then
               (case overrideThemeVariables tk ovr w2 of
                  (Inl e, w3) \<Rightarrow> (Inl e, w3)
                | (Inr vs, w3) \<Rightarrow> overrideThemeVariables defaultKey vs w3)
             else overrideThemeVariables defaultKey (Some (mergeDeep defaultOverrides ovr)) w2
         | None \<Rightarrow> overrideThemeVariables defaultKey (Some (mergeDeep defaultOverrides ovr)) w2)"

subsection \<open>Component themes\<close>

text \<open>
  \<open>makeComponentTheme\<close> is only called by \<open>registerComponentTheme\<close>, after the check
  that its first argument is a function, so the first \<open>typeof\<close> test of the wrapper
  always succeeds. An exception of either call leaves the wrapper.
\<close>

definition makeComponentTheme :: "function_object \<Rightarrow> string \<Rightarrow> style_function" where
  "makeComponentTheme componentThemeFunction themeKey =
     (\<lambda>vs. case call componentThemeFunction vs of
              Inl e \<Rightarrow> Inl e
            | Inr base \<Rightarrow>
                (case map_of (props componentThemeFunction) themeKey of
                   Some (Callable f) \<Rightarrow>
                     (case f vs of
                        Inl e \<Rightarrow> Inl e
                      | Inr special \<Rightarrow> Inr (spread (Some base) (Some special)))
                 | _ \<Rightarrow> Inr base))"

text \<open>
  One round of the \<open>forEach\<close> over \<open>Object.keys(componentThemeFunction)\<close>: make sure
  the bucket of the theme key exists, then store the wrapper in it.
\<close>

definition registerFor ::
  "pkey \<Rightarrow> function_object \<Rightarrow> string \<Rightarrow> (string \<times> bucket) list \<Rightarrow> (string \<times> bucket) list" where
  "registerFor componentKey fn themeKey comps =
     (let comps1 = (case map_of comps themeKey of
                      None \<Rightarrow> AList.update themeKey [] comps
                    | Some b \<Rightarrow> comps)
      in case map_of comps1 themeKey of
           None \<Rightarrow> comps1
         | Some b \<Rightarrow>
             AList.update themeKey
               (AList.update componentKey (makeComponentTheme fn themeKey) b) comps1)"

text \<open>
  The second argument is \<open>None\<close> when it is not a function. The default bucket is
  created by \<open>makeRegistry\<close>; writing into a missing one would throw.
\<close>

definition registerComponentTheme ::
  "pkey \<Rightarrow> function_object option \<Rightarrow> world \<Rightarrow> (js_error + unit) \<times> world" where
  "registerComponentTheme componentKey componentThemeFunction w =
     (let (r, w1) = getRegistry w
      in case componentThemeFunction of
           None \<Rightarrow> (Inr (), w1)
         | Some fn \<Rightarrow>
             (case map_of (components r) DEFAULT_THEME_KEY of
                None \<Rightarrow> (Inl (TypeError ''components[DEFAULT_THEME_KEY] is undefined''), w1)
              | Some b \<Rightarrow>
                  (Inr (),
                   mutateRegistry
                     (\<lambda>reg. reg\<lparr>components :=
                        fold (registerFor componentKey fn) (map fst (AList.clearjunk (props fn)))
                          (AList.update DEFAULT_THEME_KEY
                             (AList.update componentKey (call fn) b) (components r))\<rparr>) w1)))"

definition getRegisteredComponents :: "string option \<Rightarrow> world \<Rightarrow> bucket \<times> world" where
  "getRegisteredComponents themeKey w =
     (let (r, w1) = getRegistry w;
          (t, w2) = (case themeKey of
                       Some k \<Rightarrow> if k \<noteq> [] then (k, w1) else getDefaultThemeKey w1
                     | None \<Rightarrow> getDefaultThemeKey w1)
      in (spread (map_of (components r) DEFAULT_THEME_KEY) (map_of (components r) t), w2))"

text \<open>
  The loop of \<open>generateTheme\<close> over the symbols of the combined bucket. There is no
  \<open>try\<close> around the call: an exception of a style function ends the loop and leaves
  \<open>generateTheme\<close>.
\<close>

fun forEachSymbol ::
  "bucket \<Rightarrow> pkey list \<Rightarrow> jsobj option \<Rightarrow> (pkey \<times> jsobj) list \<Rightarrow> js_error + (pkey \<times> jsobj) list" where
  "forEachSymbol comps [] vs th = Inr th"
| "forEachSymbol comps (componentKey # ks) vs th =
     (case map_of comps componentKey of
        None \<Rightarrow> Inl (TypeError ''components[componentKey] is not a function'')
      | Some f \<Rightarrow>
          (case f vs of
             Inl e \<Rightarrow> Inl e
           | Inr style \<Rightarrow> forEachSymbol comps ks vs (AList.update componentKey style th)))"

definition generateTheme ::
  "string option \<Rightarrow> jsobj option \<Rightarrow> world \<Rightarrow> (js_error + (pkey \<times> jsobj) list) \<times> world" where
  "generateTheme themeKey ovr w =
     (let (r, w1) = getRegistry w;
          w2 = warning (length (registered r) > 0) NoThemesRegistered w1;
          (comps, w3) = getRegisteredComponents themeKey w2
      in case mergeWithDefaultThemeVariables themeKey ovr w3 of
           (Inl e, w4) \<Rightarrow> (Inl e, w4)
         | (Inr vs, w4) \<Rightarrow> (forEachSymbol comps (getOwnPropertySymbols comps) vs [], w4))"

text \<open>
  \<open>generateComponentTheme\<close>: the call of the style function is the only statement
  inside \<open>try\<close>; the caught exception goes to \<open>console.error\<close> unless
  \<open>NODE_ENV\<close> is production.
\<close>

definition generateComponentTheme ::
  "pkey \<Rightarrow> string option \<Rightarrow> jsobj option \<Rightarrow> world \<Rightarrow> (js_error + jsobj) \<times> world" where
  "generateComponentTheme componentKey themeKey ovr w =
     (case mergeWithDefaultThemeVariables themeKey None w of
        (Inl e, w1) \<Rightarrow> (Inl e, w1)
      | (Inr vs, w1) \<Rightarrow>
          (let (t, w2) = (case themeKey of
                            Some k \<Rightarrow> if k \<noteq> [] then (k, w1) else getDefaultThemeKey w1
                          | None \<Rightarrow> getDefaultThemeKey w1);
               (comps, w3) = getRegisteredComponents (Some t) w2;
               (componentTheme, w4) =
                  (case map_of comps componentKey of
                     None \<Rightarrow> ([], w3)
                   | Some f \<Rightarrow>
                       (case f vs of
                          Inr style \<Rightarrow> (style, w3)
                        | Inl e \<Rightarrow>
                            ([], if production w3 then w3
                                 else w3\<lparr>console := console w3 @ [ConsoleError e]\<rparr>)))
           in case getRegisteredTheme t (Some empty_theme) w4 of
                (None, w5) \<Rightarrow> (Inl (TypeError ''theme is undefined''), w5)
              | (Some th, w5) \<Rightarrow>
                  if has_keys ovr \<and> immutable th
                  then (Inr componentTheme,
                        warning False
                          (ThemeIsImmutableFor t componentKey
                             (case ovr of None \<Rightarrow> [] | Some obj \<Rightarrow> obj)) w5)
                  else (Inr (spread (Some componentTheme) ovr), w5)))"

subsection \<open>What the operations compute, as functions of the live registry\<close>

text \<open>
  The statements below speak about the values of the operations through the following
  functions of the registry; each is proved equal to what the operation above returns
  (\<open>getRegistry_eq\<close>, \<open>getDefaultThemeKey_eq\<close>, \<open>getRegisteredTheme_eq\<close>,
  \<open>overrideThemeVariables_eq\<close>, \<open>mergeWithDefaultThemeVariables_fst\<close>,
  \<open>getRegisteredComponents_eq\<close>, \<open>generateComponentTheme_eq\<close>,
  \<open>generateTheme_fst\<close>).

  The registry that \<open>getRegistry\<close> returns, and the world it leaves: the window slot
  is filled on the first call in a DOM environment.
\<close>

definition liveRegistry :: "world \<Rightarrow> registry" where
  "liveRegistry w =
     (if canUseDOM w
      then (case window_GLOBAL_THEME_REGISTRY w of
              OtherObject r \<Rightarrow> r
            | _ \<Rightarrow> GLOBAL_THEME_REGISTRY w)
      else GLOBAL_THEME_REGISTRY w)"

definition mirrored :: "world \<Rightarrow> world" where
  "mirrored w =
     (if canUseDOM w \<and> window_GLOBAL_THEME_REGISTRY w = Unset
      then w\<lparr>window_GLOBAL_THEME_REGISTRY := SameObject\<rparr> else w)"

text \<open>
  The world after a read-only operation on \<open>w\<close> that logged the diagnostics \<open>c\<close>.
\<close>

definition logged :: "world \<Rightarrow> diagnostic list \<Rightarrow> world" where
  "logged w c = (mirrored w)\<lparr>console := console w @ c\<rparr>"

text \<open>Truthiness of a possibly absent string: the empty string is falsy.\<close>

definition truthy :: "string option \<Rightarrow> bool" where
  "truthy s = (case s of None \<Rightarrow> False | Some k \<Rightarrow> k \<noteq> [])"

text \<open>The key under which \<open>registerTheme\<close> files a theme: \<open>theme.key || uid()\<close>.\<close>

definition registrationKey :: "theme \<Rightarrow> world \<Rightarrow> string" where
  "registrationKey th w =
     (case key th of
        Some s \<Rightarrow> if s \<noteq> [] then s else uid_name (uid_counter w)
      | None \<Rightarrow> uid_name (uid_counter w))"

definition defaultKeyOf :: "registry \<Rightarrow> string" where
  "defaultKeyOf r =
     (case defaultThemeKey r of
        Some k \<Rightarrow>
          if k \<noteq> [] then k
          else (case registered r of
                  [] \<Rightarrow> DEFAULT_THEME_KEY
                | k0 # ks \<Rightarrow> if k0 \<noteq> [] then k0 else DEFAULT_THEME_KEY)
      | None \<Rightarrow>
          (case registered r of
             [] \<Rightarrow> DEFAULT_THEME_KEY
           | k0 # ks \<Rightarrow> if k0 \<noteq> [] then k0 else DEFAULT_THEME_KEY))"

text \<open>The effective theme key \<open>themeKey || getDefaultThemeKey()\<close> and its theme.\<close>

definition effectiveKey :: "registry \<Rightarrow> string option \<Rightarrow> string" where
  "effectiveKey r themeKey =
     (case themeKey of
        Some k \<Rightarrow> if k \<noteq> [] then k else defaultKeyOf r
      | None \<Rightarrow> defaultKeyOf r)"

definition themeOrEmpty :: "registry \<Rightarrow> string \<Rightarrow> theme" where
  "themeOrEmpty r k = (case map_of (themes r) k of Some t \<Rightarrow> t | None \<Rightarrow> empty_theme)"

definition overridden :: "registry \<Rightarrow> string \<Rightarrow> jsobj option \<Rightarrow> jsobj option" where
  "overridden r k ovr =
     (if has_keys ovr \<and> immutable (themeOrEmpty r k)
      then variables (themeOrEmpty r k)
      else Some (mergeDeep (variables (themeOrEmpty r k)) ovr))"

definition resolved :: "registry \<Rightarrow> string option \<Rightarrow> jsobj option \<Rightarrow> jsobj option" where
  "resolved r themeKey ovr0 =
     (let ovr = (case ovr0 of None \<Rightarrow> Some [] | Some obj \<Rightarrow> Some obj);
          defaultOverrides = (case overrides r of None \<Rightarrow> Some [] | Some obj \<Rightarrow> Some obj)
      in case themeKey of
           Some tk \<Rightarrow>
             if tk \<noteq> [] then overridden r (defaultKeyOf r) (overridden r tk ovr)
             else overridden r (defaultKeyOf r) (Some (mergeDeep defaultOverrides ovr))
         | None \<Rightarrow> overridden r (defaultKeyOf r) (Some (mergeDeep defaultOverrides ovr)))"

text \<open>
  The combined components bucket of a theme key: the bucket of the key overlaid on the
  default bucket.
\<close>

definition combined :: "registry \<Rightarrow> string \<Rightarrow> bucket" where
  "combined r t = spread (map_of (components r) DEFAULT_THEME_KEY) (map_of (components r) t)"

text \<open>The function stored for a component in the bucket of a theme key, if any.\<close>

definition registeredFunction :: "registry \<Rightarrow> string \<Rightarrow> pkey \<Rightarrow> style_function option" where
  "registeredFunction r t componentKey =
     (case map_of (components r) t of None \<Rightarrow> None | Some b \<Rightarrow> map_of b componentKey)"

text \<open>
  The style of a component as \<open>generateComponentTheme\<close> obtains it: the result of the
  function found in the combined bucket on the resolved variables, and the empty object
  when there is no function or when it throws.
\<close>

definition componentStyle :: "registry \<Rightarrow> pkey \<Rightarrow> string option \<Rightarrow> jsobj" where
  "componentStyle r componentKey themeKey =
     (case map_of (combined r (effectiveKey r themeKey)) componentKey of
        None \<Rightarrow> []
      | Some f \<Rightarrow> (case f (resolved r themeKey None) of Inr style \<Rightarrow> style | Inl e \<Rightarrow> []))"

subsection \<open>Sequences of registry operations\<close>

text \<open>
  The operations of the module on the registry, performed one after the other; what an
  operation returns is dropped here.
\<close>

datatype operation =
    RegisterTheme theme
  | SetDefaultTheme string "jsobj option" bool
  | RegisterComponentTheme pkey "function_object option"
  | ClearRegistry
  | GetDefaultThemeKey
  | GenerateTheme "string option" "jsobj option"
  | GenerateComponentTheme pkey "string option" "jsobj option"

fun perform :: "operation \<Rightarrow> world \<Rightarrow> world" where
  "perform (RegisterTheme th) w = registerTheme th w"
| "perform (SetDefaultTheme themeKey ovr imm) w = snd (setDefaultTheme themeKey ovr imm w)"
| "perform (RegisterComponentTheme componentKey fn) w = snd (registerComponentTheme componentKey fn w)"
| "perform ClearRegistry w = clearRegistry w"
| "perform GetDefaultThemeKey w = snd (getDefaultThemeKey w)"
| "perform (GenerateTheme themeKey ovr) w = snd (generateTheme themeKey ovr w)"
| "perform (GenerateComponentTheme componentKey themeKey ovr) w =
     snd (generateComponentTheme componentKey themeKey ovr w)"

definition run :: "operation list \<Rightarrow> world \<Rightarrow> world" where
  "run ops w = fold perform ops w"

text \<open>
  The keys of the \<open>registerTheme\<close> calls of a sequence since its last
  \<open>clearRegistry\<close>, in the order of the calls, after the keys \<open>acc\<close> that were there
  before; \<open>c\<close> counts the identifiers that \<open>uid\<close> has handed out.
\<close>

fun registrations :: "string list \<Rightarrow> nat \<Rightarrow> operation list \<Rightarrow> string list" where
  "registrations acc c [] = acc"
| "registrations acc c (RegisterTheme th # ops) =
     (if truthy (key th)
      then registrations (acc @ [case key th of Some k \<Rightarrow> k | None \<Rightarrow> []]) c ops
      else registrations (acc @ [uid_name c]) (Suc c) ops)"
| "registrations acc c (ClearRegistry # ops) = registrations [] c ops"
| "registrations acc c (other # ops) = registrations acc c ops"

subsection \<open>An example registry\<close>

text \<open>
  Two themes, one of them immutable, and three components: one with a plain style
  function, one whose style function throws, and one with a specialization for the theme
  key brand.
\<close>

definition locked_theme :: theme where
  "locked_theme =
     \<lparr>key = Some ''locked'', variables = Some [(''color'', JStr ''red'')], immutable = True\<rparr>"

definition open_theme :: theme where
  "open_theme =
     \<lparr>key = Some ''open'', variables = Some [(''color'', JStr ''blue'')], immutable = False\<rparr>"

definition button_style :: function_object where
  "button_style = \<lparr>call = (\<lambda>vs. Inr [(''z'', JNum 1), (''y'', JNum 2)]), props = []\<rparr>"

definition broken_style :: function_object where
  "broken_style = \<lparr>call = (\<lambda>vs. Inl (Thrown ''boom'')), props = []\<rparr>"

definition brand_style :: function_object where
  "brand_style =
     \<lparr>call = (\<lambda>vs. Inr [(''bg'', JStr ''white''), (''fg'', JStr ''black'')]),
      props = [(''brand'', Callable (\<lambda>vs. Inr [(''fg'', JStr ''navy'')]))]\<rparr>"

definition example_world :: world where
  "example_world =
     snd (registerComponentTheme (Sym 2) (Some broken_style)
       (snd (registerComponentTheme (Sym 1) (Some button_style)
         (registerTheme open_theme (registerTheme locked_theme (loaded False False))))))"




section \<open>Properties\<close>

subsection \<open>Reading the registry\<close>

lemma liveRegistry_logged [simp]: "liveRegistry (logged w c) = liveRegistry w"
  by (cases "window_GLOBAL_THEME_REGISTRY w") (simp_all add: logged_def liveRegistry_def mirrored_def)

lemma logged_logged [simp]: "logged (logged w c) c' = logged w (c @ c')"
  by (simp add: logged_def mirrored_def)

lemma logged_fields [simp]:
  "console (logged w c) = console w @ c"
  "production (logged w c) = production w"
  "uid_counter (logged w c) = uid_counter w"
  "canUseDOM (logged w c) = canUseDOM w"
  by (simp_all add: logged_def mirrored_def)

lemma warning_logged [simp]:
  "warning b d (logged w c) = logged w (c @ (if b then [] else [d]))"
  by (simp add: warning_def logged_def mirrored_def)

lemma console_logged [simp]:
  "(logged w c)\<lparr>console := console w @ c @ c'\<rparr> = logged w (c @ c')"
  by (simp add: logged_def)

lemma getRegistry_eq: "getRegistry w = (liveRegistry w, logged w [])"
  by (cases "window_GLOBAL_THEME_REGISTRY w")
     (simp_all add: getRegistry_def validateRegistry_def liveRegistry_def mirrored_def
        logged_def warning_def)

lemma getDefaultThemeKey_eq: "getDefaultThemeKey w = (defaultKeyOf (liveRegistry w), logged w [])"
  by (simp add: getDefaultThemeKey_def getRegistry_eq defaultKeyOf_def first_registered_def
      split: option.splits list.splits)

lemma getRegisteredTheme_eq:
  "getRegisteredTheme k (Some empty_theme) w = (Some (themeOrEmpty (liveRegistry w) k), logged w [])"
  by (simp add: getRegisteredTheme_def getRegistry_eq themeOrEmpty_def split: option.splits)

lemma overrideThemeVariables_eq:
  "overrideThemeVariables k ovr w =
     (Inr (overridden (liveRegistry w) k ovr),
      logged w (if has_keys ovr \<and> immutable (themeOrEmpty (liveRegistry w) k)
                then [ThemeIsImmutable k (case ovr of None \<Rightarrow> [] | Some obj \<Rightarrow> obj)] else []))"
  by (simp add: overrideThemeVariables_def getRegisteredTheme_eq overridden_def)

lemma mergeWithDefaultThemeVariables_fst:
  "fst (mergeWithDefaultThemeVariables tk ovr w) = Inr (resolved (liveRegistry w) tk ovr)"
  by (simp add: mergeWithDefaultThemeVariables_def getRegistry_eq getDefaultThemeKey_eq
      overrideThemeVariables_eq resolved_def Let_def
      split: option.splits)

lemma mergeWithDefaultThemeVariables_snd:
  "\<exists>c. snd (mergeWithDefaultThemeVariables tk ovr w) = logged w c"
proof -
  have ov: "\<exists>c. snd (overrideThemeVariables k x (logged w c0)) = logged w c" for k x c0
    by (auto simp add: overrideThemeVariables_eq)
  have ov2: "\<exists>c. snd (case overrideThemeVariables k x (logged w c0) of
                (Inl e, w3) \<Rightarrow> (Inl e, w3)
              | (Inr vs, w3) \<Rightarrow> overrideThemeVariables k' vs w3) = logged w c" for k k' x c0
    by (auto simp add: overrideThemeVariables_eq)
  show ?thesis
    unfolding mergeWithDefaultThemeVariables_def getRegistry_eq getDefaultThemeKey_eq Let_def
    using ov ov2 by (simp split: option.splits)
qed

lemma getRegisteredComponents_eq:
  "getRegisteredComponents tk w = (combined (liveRegistry w) (effectiveKey (liveRegistry w) tk), logged w [])"
  by (simp add: getRegisteredComponents_def getRegistry_eq getDefaultThemeKey_eq combined_def
      effectiveKey_def split: option.splits)

subsection \<open>Objects and spreads\<close>

lemma map_of_fold_update:
  "distinct (map fst s) \<Longrightarrow>
   map_of (fold (\<lambda>(k, v). AList.update k v) s t) = map_of t ++ map_of s"
proof (induction s arbitrary: t)
  case Nil
  then show ?case by simp
next
  case (Cons kv s)
  obtain k v where kv: "kv = (k, v)" by (cases kv)
  from Cons.prems have k: "map_of s k = None" and d: "distinct (map fst s)"
    by (auto simp add: kv map_of_eq_None_iff)
  have pointwise:
    "map_of (fold (\<lambda>(k, v). AList.update k v) (kv # s) t) x = (map_of t ++ map_of (kv # s)) x"
    for x
    using Cons.IH [OF d, of "AList.update k v t"] k
    by (auto simp add: kv map_add_def AList.update_conv' split: option.splits)
  show ?case by (rule ext) (rule pointwise)
qed

lemma map_of_assign: "map_of (assign t s) = map_of t ++ map_of s"
  by (simp add: assign_def map_of_fold_update AList.map_of_clearjunk)

lemma map_of_spread:
  "map_of (spread a b) =
     map_of (case a of None \<Rightarrow> [] | Some x \<Rightarrow> x) ++ map_of (case b of None \<Rightarrow> [] | Some y \<Rightarrow> y)"
  by (simp add: spread_def map_of_assign)

lemma spread_empty [simp]: "spread (Some []) None = []" "spread (Some []) (Some []) = []"
  by (simp_all add: spread_def assign_def)

subsection \<open>Writing the registry\<close>

lemma liveRegistry_mutateRegistry [simp]:
  "liveRegistry (mutateRegistry f w) = f (liveRegistry w)"
  by (cases "window_GLOBAL_THEME_REGISTRY w") (simp_all add: mutateRegistry_def liveRegistry_def)

lemma mutateRegistry_fields [simp]:
  "console (mutateRegistry f w) = console w"
  "production (mutateRegistry f w) = production w"
  "uid_counter (mutateRegistry f w) = uid_counter w"
  "canUseDOM (mutateRegistry f w) = canUseDOM w"
  by (simp_all add: mutateRegistry_def split: window_slot.splits)

lemma liveRegistry_uid_counter [simp]: "liveRegistry (w\<lparr>uid_counter := n\<rparr>) = liveRegistry w"
  by (simp add: liveRegistry_def split: window_slot.splits)

lemma liveRegistry_setRegistry [simp]: "liveRegistry (setRegistry r w) = r"
  by (simp add: setRegistry_def liveRegistry_def Let_def)

lemma registerTheme_live:
  "liveRegistry (registerTheme th w) =
     (liveRegistry w)\<lparr>themes := AList.update (registrationKey th w) th (themes (liveRegistry w)),
                      registered := registered (liveRegistry w) @ [registrationKey th w]\<rparr>"
  by (simp add: registerTheme_def getRegistry_eq uid_def registrationKey_def truthy_def
      split: option.splits)

lemma registerTheme_uid_counter:
  "uid_counter (registerTheme th w) = (if truthy (key th) then uid_counter w else Suc (uid_counter w))"
  by (simp add: registerTheme_def getRegistry_eq uid_def truthy_def split: option.splits)

lemma setDefaultTheme_live:
  "liveRegistry (snd (setDefaultTheme k ovr imm w)) =
     (liveRegistry w)\<lparr>themes := AList.update k (fst (setDefaultTheme k ovr imm w)) (themes (liveRegistry w)),
                      defaultThemeKey := Some k, overrides := ovr\<rparr>"
  by (simp add: setDefaultTheme_def getRegistry_eq Let_def)


lemma uid_name_inject [simp]: "uid_name m = uid_name n \<longleftrightarrow> m = n"
proof
  assume "uid_name m = uid_name n"
  then have "length (uid_name m) = length (uid_name n)" by simp
  then show "m = n" by (simp add: uid_name_def)
qed simp

lemma registrationKey_nonempty: "registrationKey th w \<noteq> []"
  by (simp add: registrationKey_def uid_name_def truthy_def split: option.splits)

subsection \<open>The default theme key and immutable themes\<close>

lemma liveRegistry_loaded [simp]: "liveRegistry (loaded d p) = makeRegistry"
  by (simp add: liveRegistry_def loaded_def)

lemma loaded_fields [simp]:
  "console (loaded d p) = []"
  "production (loaded d p) = p"
  "uid_counter (loaded d p) = 0"
  "canUseDOM (loaded d p) = d"
  by (simp_all add: loaded_def)

text \<open>
  C5. \<open>getDefaultThemeKey\<close> returns the explicit \<open>defaultThemeKey\<close> when it is set
  (a non-empty string, which is what \<open>||\<close> tests), otherwise the first element of
  \<open>registered\<close> when that sequence is non-empty, otherwise \<open>DEFAULT_THEME_KEY\<close>; and
  right after \<open>clearRegistry\<close> it returns \<open>DEFAULT_THEME_KEY\<close>. The keys in
  \<open>registered\<close> are non-empty strings: every key that \<open>registerTheme\<close> appends is
  (\<open>registrationKey_nonempty\<close>), so this holds after every sequence of operations on
  the module as loaded (\<open>registered_nonempty_keys\<close>).
\<close>

theorem getDefaultThemeKey_preference:
  assumes "[] \<notin> set (registered (liveRegistry w))"
  shows "fst (getDefaultThemeKey w) =
           (if truthy (defaultThemeKey (liveRegistry w))
            then (case defaultThemeKey (liveRegistry w) of Some k \<Rightarrow> k | None \<Rightarrow> [])
            else (case registered (liveRegistry w) of
                    k0 # ks \<Rightarrow> k0
                  | [] \<Rightarrow> DEFAULT_THEME_KEY))
         \<and> fst (getDefaultThemeKey (clearRegistry w)) = DEFAULT_THEME_KEY"
proof
  show "fst (getDefaultThemeKey w) =
           (if truthy (defaultThemeKey (liveRegistry w))
            then (case defaultThemeKey (liveRegistry w) of Some k \<Rightarrow> k | None \<Rightarrow> [])
            else (case registered (liveRegistry w) of
                    k0 # ks \<Rightarrow> k0
                  | [] \<Rightarrow> DEFAULT_THEME_KEY))"
    using assms
    by (auto simp add: getDefaultThemeKey_eq defaultKeyOf_def truthy_def
        split: option.splits list.splits)
  show "fst (getDefaultThemeKey (clearRegistry w)) = DEFAULT_THEME_KEY"
    by (simp add: getDefaultThemeKey_eq clearRegistry_def defaultKeyOf_def makeRegistry_def)
qed

theorem getDefaultThemeKey_preference_witness:
  "[] \<notin> set (registered (liveRegistry (registerTheme
       \<lparr>key = Some ''canvas'', variables = None, immutable = False\<rparr> (loaded True False))))
   \<and> fst (getDefaultThemeKey (registerTheme
       \<lparr>key = Some ''canvas'', variables = None, immutable = False\<rparr> (loaded True False)))
     = ''canvas''
   \<and> fst (getDefaultThemeKey (snd (setDefaultTheme ''a11y'' None True (registerTheme
       \<lparr>key = Some ''canvas'', variables = None, immutable = False\<rparr> (loaded True False)))))
     = ''a11y''
   \<and> fst (getDefaultThemeKey (clearRegistry (registerTheme
       \<lparr>key = Some ''canvas'', variables = None, immutable = False\<rparr> (loaded True False))))
     = DEFAULT_THEME_KEY"
proof -
  let ?w = "registerTheme \<lparr>key = Some ''canvas'', variables = None, immutable = False\<rparr>
              (loaded True False)"
  let ?w2 = "snd (setDefaultTheme ''a11y'' None True ?w)"
  have r: "registered (liveRegistry ?w) = [''canvas'']"
    by (simp add: registerTheme_live registrationKey_def makeRegistry_def)
  have d: "defaultThemeKey (liveRegistry ?w) = None"
    by (simp add: registerTheme_live registrationKey_def makeRegistry_def)
  have h: "[] \<notin> set (registered (liveRegistry ?w))" by (simp add: r)
  have r2: "registered (liveRegistry ?w2) = [''canvas'']"
    by (simp add: setDefaultTheme_live r)
  have d2: "defaultThemeKey (liveRegistry ?w2) = Some ''a11y''"
    by (simp add: setDefaultTheme_live)
  have h2: "[] \<notin> set (registered (liveRegistry ?w2))" by (simp add: r2)
  show ?thesis
    using getDefaultThemeKey_preference [OF h] getDefaultThemeKey_preference [OF h2] h
    by (simp add: r d r2 d2 truthy_def)
qed

text \<open>
  C2. For a theme \<open>T\<close> stored under \<open>k\<close> with \<open>immutable\<close> true and overrides \<open>ovr\<close>
  with at least one key, \<open>overrideThemeVariables k ovr\<close> returns exactly the variables of
  \<open>T\<close>, logs the diagnostic, and leaves the registry (so the stored theme) as it was.
\<close>

theorem overrideThemeVariables_immutable:
  assumes "map_of (themes (liveRegistry w)) k = Some T"
    and "immutable T"
    and "ovr \<noteq> []"
  shows "overrideThemeVariables k (Some ovr) w = (Inr (variables T), logged w [ThemeIsImmutable k ovr])
         \<and> liveRegistry (snd (overrideThemeVariables k (Some ovr) w)) = liveRegistry w
         \<and> map_of (themes (liveRegistry (snd (overrideThemeVariables k (Some ovr) w)))) k = Some T"
  using assms
  by (simp add: overrideThemeVariables_eq overridden_def themeOrEmpty_def has_keys_def)

theorem overrideThemeVariables_immutable_witness:
  "map_of (themes (liveRegistry (registerTheme
      \<lparr>key = Some ''strict'', variables = Some [(''color'', JStr ''red'')], immutable = True\<rparr>
      (loaded False False)))) ''strict''
     = Some \<lparr>key = Some ''strict'', variables = Some [(''color'', JStr ''red'')], immutable = True\<rparr>
   \<and> fst (overrideThemeVariables ''strict'' (Some [(''color'', JStr ''green'')])
        (registerTheme
          \<lparr>key = Some ''strict'', variables = Some [(''color'', JStr ''red'')], immutable = True\<rparr>
          (loaded False False)))
     = Inr (Some [(''color'', JStr ''red'')])"
proof -
  let ?T = "\<lparr>key = Some ''strict'', variables = Some [(''color'', JStr ''red'')], immutable = True\<rparr>"
  let ?w = "registerTheme ?T (loaded False False)"
  have h: "map_of (themes (liveRegistry ?w)) ''strict'' = Some ?T"
    by (simp add: registerTheme_live registrationKey_def makeRegistry_def)
  have i: "immutable ?T" by simp
  have n: "[(''color'', JStr ''green'')] \<noteq> []" by simp
  show ?thesis
    using overrideThemeVariables_immutable [OF h i n] h by simp
qed

subsection \<open>Component themes\<close>

lemma effectiveKey_nonempty: "effectiveKey r tk \<noteq> []"
  by (simp add: effectiveKey_def defaultKeyOf_def DEFAULT_THEME_KEY_def
      split: option.splits list.splits)

lemma effectiveKey_idem: "effectiveKey r (Some (effectiveKey r tk)) = effectiveKey r tk"
  using effectiveKey_nonempty [of r tk] by (simp add: effectiveKey_def)

lemma generateComponentTheme_eq:
  assumes w1: "snd (mergeWithDefaultThemeVariables tk None w) = logged w c"
  shows "generateComponentTheme K tk ovr w =
     (Inr (if has_keys ovr \<and> immutable (themeOrEmpty (liveRegistry w) (effectiveKey (liveRegistry w) tk))
           then componentStyle (liveRegistry w) K tk
           else spread (Some (componentStyle (liveRegistry w) K tk)) ovr),
      logged w (c @
        (case map_of (combined (liveRegistry w) (effectiveKey (liveRegistry w) tk)) K of
           None \<Rightarrow> []
         | Some f \<Rightarrow> (case f (resolved (liveRegistry w) tk None) of
                        Inr style \<Rightarrow> []
                      | Inl e \<Rightarrow> if production w then [] else [ConsoleError e])) @
        (if has_keys ovr \<and> immutable (themeOrEmpty (liveRegistry w) (effectiveKey (liveRegistry w) tk))
         then [ThemeIsImmutableFor (effectiveKey (liveRegistry w) tk) K
                 (case ovr of None \<Rightarrow> [] | Some obj \<Rightarrow> obj)]
         else [])))"
proof -
  have m: "mergeWithDefaultThemeVariables tk None w =
             (Inr (resolved (liveRegistry w) tk None), logged w c)"
    using w1 mergeWithDefaultThemeVariables_fst [of tk None w] by (simp add: prod_eq_iff)
  have t: "(case tk of
              Some k \<Rightarrow> if k \<noteq> [] then (k, logged w c) else getDefaultThemeKey (logged w c)
            | None \<Rightarrow> getDefaultThemeKey (logged w c)) =
           (effectiveKey (liveRegistry w) tk, logged w c)"
    by (simp add: getDefaultThemeKey_eq effectiveKey_def split: option.splits)
  show ?thesis
    unfolding generateComponentTheme_def m
    by (simp add: t getRegisteredComponents_eq effectiveKey_idem getRegisteredTheme_eq
        componentStyle_def Let_def has_keys_def split: option.splits sum.splits)
qed

lemma map_of_combined:
  "map_of (combined r t) K =
     (case registeredFunction r t K of
        Some f \<Rightarrow> Some f
      | None \<Rightarrow> registeredFunction r DEFAULT_THEME_KEY K)"
  by (simp add: combined_def map_of_spread registeredFunction_def map_add_def
      split: option.splits)

lemma generateComponentTheme_fst:
  "fst (generateComponentTheme K tk ovr w) =
     Inr (if has_keys ovr \<and> immutable (themeOrEmpty (liveRegistry w) (effectiveKey (liveRegistry w) tk))
          then componentStyle (liveRegistry w) K tk
          else spread (Some (componentStyle (liveRegistry w) K tk)) ovr)"
proof -
  obtain c where "snd (mergeWithDefaultThemeVariables tk None w) = logged w c"
    using mergeWithDefaultThemeVariables_snd by blast
  then show ?thesis by (simp add: generateComponentTheme_eq)
qed

text \<open>
  C3. With overrides that have at least one key: when the effective theme (the theme of
  \<open>themeKey || getDefaultThemeKey()\<close>) is immutable, \<open>generateComponentTheme\<close> returns
  the result of the component's style function as it is, with nothing of the overrides in
  it; when it is not immutable, it returns the shallow merge of that result with the
  overrides, in which the overrides win on every key they have.
\<close>

theorem generateComponentTheme_overrides:
  assumes "ovr \<noteq> []"
  shows "(immutable (themeOrEmpty (liveRegistry w) (effectiveKey (liveRegistry w) tk)) \<longrightarrow>
            fst (generateComponentTheme K tk (Some ovr) w) =
              Inr (componentStyle (liveRegistry w) K tk))
       \<and> (\<not> immutable (themeOrEmpty (liveRegistry w) (effectiveKey (liveRegistry w) tk)) \<longrightarrow>
            fst (generateComponentTheme K tk (Some ovr) w) =
              Inr (spread (Some (componentStyle (liveRegistry w) K tk)) (Some ovr))
          \<and> map_of (spread (Some (componentStyle (liveRegistry w) K tk)) (Some ovr)) =
              map_of (componentStyle (liveRegistry w) K tk) ++ map_of ovr)"
  using assms by (simp add: generateComponentTheme_fst has_keys_def map_of_spread)

text \<open>
  C4. When the style function found for the component throws on the resolved variables,
  \<open>generateComponentTheme\<close> still returns normally: the component's style is the empty
  object (so the result is empty when no overrides are given), and the exception is logged
  unless \<open>NODE_ENV\<close> is production.
\<close>

theorem generateComponentTheme_catches:
  assumes "map_of (combined (liveRegistry w) (effectiveKey (liveRegistry w) tk)) K = Some f"
    and "f (resolved (liveRegistry w) tk None) = Inl e"
  shows "componentStyle (liveRegistry w) K tk = []
       \<and> fst (generateComponentTheme K tk ovr w) =
           Inr (if has_keys ovr \<and>
                   immutable (themeOrEmpty (liveRegistry w) (effectiveKey (liveRegistry w) tk))
                then [] else spread (Some []) ovr)
       \<and> fst (generateComponentTheme K tk None w) = Inr []
       \<and> (\<not> production w \<longrightarrow>
            ConsoleError e \<in> set (console (snd (generateComponentTheme K tk ovr w))))"
proof -
  obtain c where c: "snd (mergeWithDefaultThemeVariables tk None w) = logged w c"
    using mergeWithDefaultThemeVariables_snd by blast
  have s: "componentStyle (liveRegistry w) K tk = []"
    using assms by (simp add: componentStyle_def)
  show ?thesis
    using assms by (simp add: generateComponentTheme_eq [OF c] s has_keys_def)
qed

text \<open>
  C10. When no style function is stored for the component, neither in the bucket of the
  effective theme key nor in the default bucket, and the effective theme is not immutable,
  \<open>generateComponentTheme\<close> returns a shallow copy of the overrides (the empty object
  when they are absent or empty). It returns normally, and it logs nothing of its own: the
  console holds what the resolution of the variables logged and no more.
\<close>

theorem generateComponentTheme_unregistered:
  assumes "registeredFunction (liveRegistry w) DEFAULT_THEME_KEY K = None"
    and "registeredFunction (liveRegistry w) (effectiveKey (liveRegistry w) tk) K = None"
    and "\<not> immutable (themeOrEmpty (liveRegistry w) (effectiveKey (liveRegistry w) tk))"
  shows "fst (generateComponentTheme K tk ovr w) = Inr (spread (Some []) ovr)
       \<and> map_of (spread (Some []) ovr) = map_of (case ovr of None \<Rightarrow> [] | Some obj \<Rightarrow> obj)
       \<and> fst (generateComponentTheme K tk None w) = Inr []
       \<and> fst (generateComponentTheme K tk (Some []) w) = Inr []
       \<and> console (snd (generateComponentTheme K tk ovr w)) =
           console (snd (mergeWithDefaultThemeVariables tk None w))"
proof -
  obtain c where c: "snd (mergeWithDefaultThemeVariables tk None w) = logged w c"
    using mergeWithDefaultThemeVariables_snd by blast
  have n: "map_of (combined (liveRegistry w) (effectiveKey (liveRegistry w) tk)) K = None"
    using assms(1,2) by (simp add: map_of_combined)
  have s: "componentStyle (liveRegistry w) K tk = []"
    using n by (simp add: componentStyle_def)
  show ?thesis
    using assms(3) by (simp add: generateComponentTheme_eq [OF c] s n c map_of_spread)
qed

subsection \<open>The example registry, evaluated\<close>

lemma registerComponentTheme_live_eq:
  "liveRegistry (snd (registerComponentTheme K (Some fn) w)) =
     (case map_of (components (liveRegistry w)) DEFAULT_THEME_KEY of
        None \<Rightarrow> liveRegistry w
      | Some b \<Rightarrow>
          (liveRegistry w)\<lparr>components :=
             fold (registerFor K fn) (map fst (AList.clearjunk (props fn)))
               (AList.update DEFAULT_THEME_KEY (AList.update K (call fn) b)
                  (components (liveRegistry w)))\<rparr>)"
  by (simp add: registerComponentTheme_def getRegistry_eq split: option.splits)

lemma registerComponentTheme_fields:
  "production (snd (registerComponentTheme K fn w)) = production w"
  "console (snd (registerComponentTheme K fn w)) = console w"
  by (simp_all add: registerComponentTheme_def getRegistry_eq split: option.splits)

lemma registerTheme_fields:
  "production (registerTheme th w) = production w"
  "console (registerTheme th w) = console w"
  by (simp_all add: registerTheme_def getRegistry_eq uid_def split: option.splits)

lemma example_registry:
  "liveRegistry example_world =
     \<lparr>defaultThemeKey = None,
      components = [(DEFAULT_THEME_KEY, [(Sym 1, call button_style), (Sym 2, call broken_style)])],
      themes = [(''locked'', locked_theme), (''open'', open_theme)],
      registered = [''locked'', ''open''],
      overrides = None\<rparr>"
  by (simp add: example_world_def registerComponentTheme_live_eq registerTheme_live
      registrationKey_def makeRegistry_def locked_theme_def open_theme_def
      button_style_def broken_style_def)

lemma example_production: "production example_world = False"
  by (simp add: example_world_def registerComponentTheme_fields registerTheme_fields)

lemmas example_simps =
  example_registry effectiveKey_def themeOrEmpty_def componentStyle_def combined_def
  resolved_def overridden_def mergeDeep_def spread_def assign_def has_keys_def
  defaultKeyOf_def DEFAULT_THEME_KEY_def locked_theme_def open_theme_def
  button_style_def broken_style_def registeredFunction_def

theorem generateComponentTheme_overrides_witness:
  "[(''z'', JNum 9)] \<noteq> []
   \<and> fst (generateComponentTheme (Sym 1) (Some ''locked'') (Some [(''z'', JNum 9)]) example_world)
       = Inr [(''z'', JNum 1), (''y'', JNum 2)]
   \<and> fst (generateComponentTheme (Sym 1) (Some ''open'') (Some [(''z'', JNum 9)]) example_world)
       = Inr [(''z'', JNum 9), (''y'', JNum 2)]"
proof -
  have n: "[(''z'', JNum 9)] \<noteq> []" by simp
  show ?thesis
    using generateComponentTheme_overrides [OF n, of example_world "Some ''locked''" "Sym 1"]
      generateComponentTheme_overrides [OF n, of example_world "Some ''open''" "Sym 1"]
    by (simp add: example_simps)
qed

theorem generateComponentTheme_catches_witness:
  "map_of (combined (liveRegistry example_world)
       (effectiveKey (liveRegistry example_world) (Some ''open''))) (Sym 2)
     = Some (call broken_style)
   \<and> call broken_style (resolved (liveRegistry example_world) (Some ''open'') None)
     = Inl (Thrown ''boom'')
   \<and> fst (generateComponentTheme (Sym 2) (Some ''open'') None example_world) = Inr []
   \<and> ConsoleError (Thrown ''boom'')
       \<in> set (console (snd (generateComponentTheme (Sym 2) (Some ''open'') None example_world)))"
proof -
  have f: "map_of (combined (liveRegistry example_world)
       (effectiveKey (liveRegistry example_world) (Some ''open''))) (Sym 2)
     = Some (call broken_style)"
    by (simp add: example_registry effectiveKey_def combined_def spread_def assign_def
        DEFAULT_THEME_KEY_def)
  have t: "call broken_style (resolved (liveRegistry example_world) (Some ''open'') None)
     = Inl (Thrown ''boom'')"
    by (simp add: broken_style_def)
  show ?thesis
    using generateComponentTheme_catches [OF f t, of None] f t
    by (simp add: example_production)
qed

theorem generateComponentTheme_unregistered_witness:
  "registeredFunction (liveRegistry example_world) DEFAULT_THEME_KEY (Sym 3) = None
   \<and> registeredFunction (liveRegistry example_world)
       (effectiveKey (liveRegistry example_world) (Some ''open'')) (Sym 3) = None
   \<and> \<not> immutable (themeOrEmpty (liveRegistry example_world)
       (effectiveKey (liveRegistry example_world) (Some ''open'')))
   \<and> fst (generateComponentTheme (Sym 3) (Some ''open'') (Some [(''z'', JNum 9)]) example_world)
       = Inr [(''z'', JNum 9)]
   \<and> fst (generateComponentTheme (Sym 3) (Some ''open'') None example_world) = Inr []"
proof -
  have a: "registeredFunction (liveRegistry example_world) DEFAULT_THEME_KEY (Sym 3) = None"
    by (simp add: example_registry registeredFunction_def)
  have b: "registeredFunction (liveRegistry example_world)
       (effectiveKey (liveRegistry example_world) (Some ''open'')) (Sym 3) = None"
    by (simp add: example_registry registeredFunction_def effectiveKey_def DEFAULT_THEME_KEY_def)
  have c: "\<not> immutable (themeOrEmpty (liveRegistry example_world)
       (effectiveKey (liveRegistry example_world) (Some ''open'')))"
    by (simp add: example_registry themeOrEmpty_def effectiveKey_def open_theme_def)
  show ?thesis
    using generateComponentTheme_unregistered [OF a b c, of "Some [(''z'', JNum 9)]"] a b c
    by (simp add: spread_def assign_def)
qed

subsection \<open>Per-theme specializations\<close>

lemma map_of_registerFor:
  "map_of (registerFor K fn tk comps) t =
     (if t = tk
      then Some (AList.update K (makeComponentTheme fn tk)
                   (case map_of comps tk of None \<Rightarrow> [] | Some b \<Rightarrow> b))
      else map_of comps t)"
  by (cases "map_of comps tk") (simp_all add: registerFor_def AList.update_conv')

lemma fold_registerFor_other:
  "t \<notin> set ks \<Longrightarrow> map_of (fold (registerFor K fn) ks comps) t = map_of comps t"
  by (induction ks arbitrary: comps) (auto simp add: map_of_registerFor)

lemma fold_registerFor_wrapper:
  "t \<in> set ks \<Longrightarrow>
   \<exists>b. map_of (fold (registerFor K fn) ks comps) t = Some b
      \<and> map_of b K = Some (makeComponentTheme fn t)"
proof (induction ks arbitrary: comps)
  case Nil
  then show ?case by simp
next
  case (Cons k ks)
  show ?case
  proof (cases "t \<in> set ks")
    case True
    then show ?thesis using Cons.IH [of "registerFor K fn k comps"] by simp
  next
    case False
    with Cons.prems have "t = k" by simp
    then show ?thesis
      using False
      by (simp add: fold_registerFor_other map_of_registerFor AList.update_conv')
  qed
qed

lemma registerComponentTheme_wrapper:
  assumes "fst (registerComponentTheme K (Some fn) w) = Inr ()"
    and "t \<in> fst ` set (props fn)"
  shows "registeredFunction (liveRegistry (snd (registerComponentTheme K (Some fn) w))) t K =
           Some (makeComponentTheme fn t)"
proof -
  from assms(1) obtain b where b: "map_of (components (liveRegistry w)) DEFAULT_THEME_KEY = Some b"
    by (auto simp add: registerComponentTheme_def getRegistry_eq split: option.splits)
  from assms(2) have "t \<in> set (map fst (AList.clearjunk (props fn)))"
    by (simp add: AList.dom_clearjunk)
  from fold_registerFor_wrapper [OF this, of K fn
      "AList.update DEFAULT_THEME_KEY (AList.update K (call fn) b) (components (liveRegistry w))"]
  obtain b' where
    "map_of (fold (registerFor K fn) (map fst (AList.clearjunk (props fn)))
       (AList.update DEFAULT_THEME_KEY (AList.update K (call fn) b)
          (components (liveRegistry w)))) t = Some b'"
    and "map_of b' K = Some (makeComponentTheme fn t)"
    by blast
  then show ?thesis
    by (simp add: registerComponentTheme_live_eq b registeredFunction_def)
qed

text \<open>
  C9. After \<open>registerComponentTheme K fn\<close>, where \<open>fn\<close> carries the function \<open>fn2\<close>
  under the property name brand, \<open>generateComponentTheme K 'brand' {}\<close> returns the
  shallow merge of \<open>fn(variables)\<close> and \<open>fn2(variables)\<close>, in which the keys of
  \<open>fn2\<close> win; \<open>variables\<close> are the variables resolved for the theme key brand.
\<close>

theorem generateComponentTheme_specialization:
  assumes "map_of (props fn) ''brand'' = Some (Callable fn2)"
    and "fst (registerComponentTheme K (Some fn) w) = Inr ()"
    and "fst (mergeWithDefaultThemeVariables (Some ''brand'') None
           (snd (registerComponentTheme K (Some fn) w))) = Inr vs"
    and "call fn vs = Inr a"
    and "fn2 vs = Inr b"
  shows "\<exists>res. fst (generateComponentTheme K (Some ''brand'') (Some [])
                  (snd (registerComponentTheme K (Some fn) w))) = Inr res
             \<and> map_of res = map_of a ++ map_of b"
proof -
  let ?w = "snd (registerComponentTheme K (Some fn) w)"
  let ?r = "liveRegistry ?w"
  have k: "effectiveKey ?r (Some ''brand'') = ''brand''"
    by (simp add: effectiveKey_def)
  have "''brand'' \<in> fst ` set (props fn)"
    using assms(1) by (metis domI dom_map_of_conv_image_fst)
  then have "registeredFunction ?r ''brand'' K = Some (makeComponentTheme fn ''brand'')"
    using assms(2) by (rule registerComponentTheme_wrapper [rotated])
  then have f: "map_of (combined ?r ''brand'') K = Some (makeComponentTheme fn ''brand'')"
    by (simp add: map_of_combined)
  have v: "resolved ?r (Some ''brand'') None = vs"
    using assms(3) by (simp add: mergeWithDefaultThemeVariables_fst)
  have "makeComponentTheme fn ''brand'' vs = Inr (spread (Some a) (Some b))"
    using assms(1,4,5) by (simp add: makeComponentTheme_def)
  then have s: "componentStyle ?r K (Some ''brand'') = spread (Some a) (Some b)"
    by (simp add: componentStyle_def k f v)
  have "fst (generateComponentTheme K (Some ''brand'') (Some []) ?w) =
          Inr (spread (Some (spread (Some a) (Some b))) (Some []))"
    by (simp add: generateComponentTheme_fst has_keys_def s)
  moreover have "map_of (spread (Some (spread (Some a) (Some b))) (Some [])) = map_of a ++ map_of b"
    by (simp add: map_of_spread)
  ultimately show ?thesis by blast
qed

theorem generateComponentTheme_specialization_witness:
  "map_of (props brand_style) ''brand'' = Some (Callable (\<lambda>vs. Inr [(''fg'', JStr ''navy'')]))
   \<and> fst (registerComponentTheme (Sym 4) (Some brand_style) example_world) = Inr ()
   \<and> (\<exists>res. fst (generateComponentTheme (Sym 4) (Some ''brand'') (Some [])
                  (snd (registerComponentTheme (Sym 4) (Some brand_style) example_world))) = Inr res
          \<and> map_of res ''bg'' = Some (JStr ''white'')
          \<and> map_of res ''fg'' = Some (JStr ''navy''))"
proof -
  let ?w = "snd (registerComponentTheme (Sym 4) (Some brand_style) example_world)"
  have p: "map_of (props brand_style) ''brand'' = Some (Callable (\<lambda>vs. Inr [(''fg'', JStr ''navy'')]))"
    by (simp add: brand_style_def)
  have r: "fst (registerComponentTheme (Sym 4) (Some brand_style) example_world) = Inr ()"
    by (simp add: registerComponentTheme_def getRegistry_eq example_registry)
  have m: "fst (mergeWithDefaultThemeVariables (Some ''brand'') None ?w) =
             Inr (resolved (liveRegistry ?w) (Some ''brand'') None)"
    by (rule mergeWithDefaultThemeVariables_fst)
  have a: "call brand_style (resolved (liveRegistry ?w) (Some ''brand'') None) =
             Inr [(''bg'', JStr ''white''), (''fg'', JStr ''black'')]"
    by (simp add: brand_style_def)
  have b: "(\<lambda>vs. Inr [(''fg'', JStr ''navy'')]) (resolved (liveRegistry ?w) (Some ''brand'') None) =
             (Inr [(''fg'', JStr ''navy'')] :: js_error + jsobj)"
    by simp
  show ?thesis
    using generateComponentTheme_specialization [OF p r m a b] p r
    by (auto simp add: map_add_def)
qed

subsection \<open>The scenario of an immutable theme over a mutable default\<close>

lemma mergeWithDefaultThemeVariables_cases:
  obtains w' where
    "mergeWithDefaultThemeVariables tk ovr w = (Inr (resolved (liveRegistry w) tk ovr), w')"
  using mergeWithDefaultThemeVariables_fst [of tk ovr w]
  by (cases "mergeWithDefaultThemeVariables tk ovr w") auto




subsection \<open>Sequences of operations\<close>

lemma generateTheme_snd: "\<exists>c. snd (generateTheme tk ovr w) = logged w c"
proof -
  obtain w1 where m1: "mergeWithDefaultThemeVariables tk ovr (logged w []) =
      (Inr (resolved (liveRegistry w) tk ovr), w1)"
    using mergeWithDefaultThemeVariables_cases [of tk ovr "logged w []"] by auto
  obtain w2 where m2: "mergeWithDefaultThemeVariables tk ovr (logged w [NoThemesRegistered]) =
      (Inr (resolved (liveRegistry w) tk ovr), w2)"
    using mergeWithDefaultThemeVariables_cases [of tk ovr "logged w [NoThemesRegistered]"] by auto
  have "\<exists>c. w1 = logged w c"
    using mergeWithDefaultThemeVariables_snd [of tk ovr "logged w []"] by (simp add: m1)
  moreover have "\<exists>c. w2 = logged w c"
    using mergeWithDefaultThemeVariables_snd [of tk ovr "logged w [NoThemesRegistered]"]
    by (auto simp add: m2)
  ultimately show ?thesis
    by (auto simp add: generateTheme_def getRegistry_eq getRegisteredComponents_eq Let_def m1 m2)
qed

lemma generateComponentTheme_snd: "\<exists>c. snd (generateComponentTheme K tk ovr w) = logged w c"
proof -
  obtain c where "snd (mergeWithDefaultThemeVariables tk None w) = logged w c"
    using mergeWithDefaultThemeVariables_snd by blast
  then show ?thesis by (auto simp add: generateComponentTheme_eq)
qed

lemma perform_registered:
  "registered (liveRegistry (perform op w)) =
     (case op of
        RegisterTheme th \<Rightarrow> registered (liveRegistry w) @ [registrationKey th w]
      | ClearRegistry \<Rightarrow> []
      | _ \<Rightarrow> registered (liveRegistry w))"
proof (cases op)
  case (GenerateTheme tk ovr)
  obtain c where "snd (generateTheme tk ovr w) = logged w c"
    using generateTheme_snd by blast
  then show ?thesis by (simp add: GenerateTheme)
next
  case (GenerateComponentTheme K tk ovr)
  obtain c where "snd (generateComponentTheme K tk ovr w) = logged w c"
    using generateComponentTheme_snd by blast
  then show ?thesis by (simp add: GenerateComponentTheme)
next
  case (RegisterComponentTheme K fn)
  then show ?thesis
    by (cases fn)
       (simp_all add: registerComponentTheme_live_eq registerComponentTheme_def getRegistry_eq
          split: option.splits)
qed (simp_all add: registerTheme_live setDefaultTheme_live clearRegistry_def makeRegistry_def
       getDefaultThemeKey_eq)

lemma perform_uid_counter:
  "uid_counter (perform op w) =
     (case op of
        RegisterTheme th \<Rightarrow> if truthy (key th) then uid_counter w else Suc (uid_counter w)
      | _ \<Rightarrow> uid_counter w)"
proof (cases op)
  case (GenerateTheme tk ovr)
  obtain c where "snd (generateTheme tk ovr w) = logged w c"
    using generateTheme_snd by blast
  then show ?thesis by (simp add: GenerateTheme)
next
  case (GenerateComponentTheme K tk ovr)
  obtain c where "snd (generateComponentTheme K tk ovr w) = logged w c"
    using generateComponentTheme_snd by blast
  then show ?thesis by (simp add: GenerateComponentTheme)
next
  case (RegisterComponentTheme K fn)
  then show ?thesis
    by (simp add: registerComponentTheme_def getRegistry_eq split: option.splits)
qed (simp_all add: registerTheme_uid_counter setDefaultTheme_def getRegistry_eq Let_def
       clearRegistry_def setRegistry_def getDefaultThemeKey_eq)

lemma run_registered:
  "registered (liveRegistry (run ops w)) =
     registrations (registered (liveRegistry w)) (uid_counter w) ops"
proof (induction ops arbitrary: w)
  case Nil
  then show ?case by (simp add: run_def)
next
  case (Cons op ops)
  have "registered (liveRegistry (run (op # ops) w)) =
          registrations (registered (liveRegistry (perform op w))) (uid_counter (perform op w)) ops"
    using Cons.IH [of "perform op w"] by (simp add: run_def)
  also have "\<dots> = registrations (registered (liveRegistry w)) (uid_counter w) (op # ops)"
    unfolding perform_registered perform_uid_counter
    by (cases op) (simp_all add: registrationKey_def truthy_def split: option.splits)
  finally show ?case .
qed

subsection \<open>Registering themes\<close>

text \<open>
  C6, as the code has it. For a theme without a (truthy) key, \<open>registerTheme\<close> takes a
  fresh identifier from \<open>uid\<close>, different from every identifier handed out before, stores
  the theme under it in \<open>themes\<close> and appends it to \<open>registered\<close>. The theme object is
  stored as it was passed: its \<open>key\<close> field is not assigned.
\<close>

theorem registerTheme_without_key:
  assumes "\<not> truthy (key th)"
  shows "registered (liveRegistry (registerTheme th w)) =
           registered (liveRegistry w) @ [uid_name (uid_counter w)]
       \<and> themes (liveRegistry (registerTheme th w)) =
           AList.update (uid_name (uid_counter w)) th (themes (liveRegistry w))
       \<and> map_of (themes (liveRegistry (registerTheme th w))) (uid_name (uid_counter w)) = Some th
       \<and> uid_counter (registerTheme th w) = Suc (uid_counter w)
       \<and> (\<forall>n < uid_counter w. uid_name n \<noteq> uid_name (uid_counter w))
       \<and> (\<forall>th'. \<not> truthy (key th') \<longrightarrow>
            registrationKey th' (registerTheme th w) \<noteq> uid_name (uid_counter w))"
proof -
  have k: "registrationKey th w = uid_name (uid_counter w)"
    using assms by (simp add: registrationKey_def truthy_def split: option.splits)
  have c: "uid_counter (registerTheme th w) = Suc (uid_counter w)"
    using assms by (simp add: registerTheme_uid_counter)
  have "registrationKey th' (registerTheme th w) \<noteq> uid_name (uid_counter w)"
    if "\<not> truthy (key th')" for th'
    using that by (simp add: registrationKey_def truthy_def c split: option.splits)
  then show ?thesis
    by (simp add: registerTheme_live k c AList.update_conv')
qed

theorem registerTheme_without_key_witness:
  "\<not> truthy (key empty_theme)
   \<and> registered (liveRegistry (registerTheme empty_theme
         (registerTheme empty_theme (loaded False False)))) = [uid_name 0, uid_name 1]
   \<and> uid_name 0 \<noteq> uid_name 1"
proof -
  have t: "\<not> truthy (key empty_theme)" by (simp add: truthy_def empty_theme_def)
  have c: "uid_counter (registerTheme empty_theme (loaded False False)) = 1"
    by (simp add: registerTheme_uid_counter t)
  have r: "registered (liveRegistry (registerTheme empty_theme (loaded False False))) = [uid_name 0]"
    by (simp add: registerTheme_live registrationKey_def empty_theme_def makeRegistry_def)
  show ?thesis
    using registerTheme_without_key [OF t, of "registerTheme empty_theme (loaded False False)"] t
    by (simp add: c r)
qed

theorem registerTheme_key_counterexample:
  "registered (liveRegistry (registerTheme \<lparr>key = None, variables = None, immutable = False\<rparr>
      (loaded False False))) = [uid_name 0]
   \<and> map_of (themes (liveRegistry (registerTheme
        \<lparr>key = None, variables = None, immutable = False\<rparr> (loaded False False)))) (uid_name 0)
      = Some \<lparr>key = None, variables = None, immutable = False\<rparr>
   \<and> map_of (themes (liveRegistry (registerTheme
        \<lparr>key = None, variables = None, immutable = False\<rparr> (loaded False False)))) (uid_name 0)
      \<noteq> Some \<lparr>key = Some (uid_name 0), variables = None, immutable = False\<rparr>"
  by (simp add: registerTheme_live registrationKey_def makeRegistry_def)



subsection \<open>Bulk generation\<close>







subsection \<open>The keys in registered\<close>

lemma registrations_nonempty_keys:
  "[] \<notin> set acc \<Longrightarrow> [] \<notin> set (registrations acc c ops)"
  by (induction acc c ops rule: registrations.induct)
     (auto simp add: truthy_def uid_name_def split: option.splits)

lemma registered_nonempty_keys:
  "[] \<notin> set (registered (liveRegistry (run ops (loaded d p))))"
  by (simp add: run_registered registrations_nonempty_keys makeRegistry_def)

end
